theory Spec2Isabelle
  imports Complex_Main "HOL-Library.Word" "HOL-Library.Stream"
begin

section \<open>Python numbers\<close>

text \<open>
  The engine computes every size with expressions such as \<^verbatim>\<open>int(safe_zone * 0.65)\<close>:
  an \<^verbatim>\<open>int\<close> is converted to a binary64 float, multiplied by a float literal, and the
  product is truncated by \<^verbatim>\<open>int()\<close>. A float is modelled by the rational it denotes;
  \<open>double_round\<close> rounds a rational to the nearest binary64 value (53-bit significand, ties
  to even), on the normal range, which is all the engine's sizes can reach.
\<close>

function bit_length :: "int \<Rightarrow> int" where
  "bit_length n = (if 0 < n then 1 + bit_length (n div 2) else 0)"
  by pat_completeness auto
termination
  by (relation "measure nat") auto

declare bit_length.simps [simp del]

definition pow2 :: "int \<Rightarrow> rat" where
  "pow2 e = (if 0 \<le> e then 2 ^ nat e else 1 / 2 ^ nat (- e))"

definition round_half_even :: "rat \<Rightarrow> int" where
  "round_half_even x =
     (let f = \<lfloor>x\<rfloor>; d = x - of_int f
      in if d < 1 / 2 then f else if 1 / 2 < d then f + 1
         else if even f then f else f + 1)"

text \<open>\<open>ilog2 a\<close> is the binary exponent of a positive rational: \<open>2 ^ e \<le> a < 2 ^ (e + 1)\<close>.\<close>

definition ilog2 :: "rat \<Rightarrow> int" where
  "ilog2 a =
     (let (p, q) = quotient_of a;
          d = bit_length p - bit_length q
      in if pow2 d \<le> a then d else d - 1)"

definition double_round :: "rat \<Rightarrow> rat" where
  "double_round x =
     (if x = 0 then 0
      else let a = \<bar>x\<bar>; e = ilog2 a - 52;
               m = round_half_even (a / pow2 e)
           in sgn x * of_int m * pow2 e)"

text \<open>A float literal of the source text, \<^verbatim>\<open>0.65\<close> written \<open>float_literal (65 / 100)\<close>.\<close>

definition float_literal :: "rat \<Rightarrow> rat" where
  "float_literal q = double_round q"

text \<open>\<^verbatim>\<open>n * f\<close> for an int \<open>n\<close> and a float \<open>f\<close>; \<^verbatim>\<open>w / h\<close> for two ints; \<^verbatim>\<open>int(x)\<close>.\<close>

definition int_times_float :: "int \<Rightarrow> rat \<Rightarrow> rat" where
  "int_times_float n f = double_round (double_round (of_int n) * f)"

definition true_div :: "int \<Rightarrow> int \<Rightarrow> rat" where
  "true_div a b = double_round (of_int a / of_int b)"

definition py_int :: "rat \<Rightarrow> int" where
  "py_int x = (if 0 \<le> x then \<lfloor>x\<rfloor> else \<lceil>x\<rceil>)"

section \<open>Python strings, paths and slices\<close>

text \<open>
  Text is modelled on the code points below 256 (Latin-1), one \<^typ>\<open>char\<close> each. On these
  \<^verbatim>\<open>str.lower()\<close> maps \<^verbatim>\<open>A\<close>..\<^verbatim>\<open>Z\<close> and the capital letters \<^verbatim>\<open>0xC0\<close>..\<^verbatim>\<open>0xDE\<close>
  (all but \<^verbatim>\<open>0xD7\<close>, the multiplication sign) to the letter 32 places up, and leaves
  every other code point alone.
\<close>

definition lower_char :: "char \<Rightarrow> char" where
  "lower_char c =
     (let n = (of_char c :: nat)
      in if (65 \<le> n \<and> n \<le> 90) \<or> (192 \<le> n \<and> n \<le> 222 \<and> n \<noteq> 215)
         then char_of (n + 32) else c)"

definition lower :: "string \<Rightarrow> string" where
  "lower s = map lower_char s"

definition endswith :: "string \<Rightarrow> string \<Rightarrow> bool" where
  "endswith s suffix =
     (length suffix \<le> length s \<and> drop (length s - length suffix) s = suffix)"

text \<open>\<^verbatim>\<open>s.split(sep)\<close> with an explicit one-character separator: never an empty list.\<close>

fun split_on :: "char \<Rightarrow> string \<Rightarrow> string list" where
  "split_on sep [] = [[]]"
| "split_on sep (c # cs) =
     (if c = sep then [] # split_on sep cs
      else (case split_on sep cs of
              [] \<Rightarrow> [[c]]
            | piece # pieces \<Rightarrow> (c # piece) # pieces))"

text \<open>\<^verbatim>\<open>os.path.join(a, b)\<close> on a POSIX system.\<close>

definition path_join :: "string \<Rightarrow> string \<Rightarrow> string" where
  "path_join a b =
     (if b \<noteq> [] \<and> hd b = CHR ''/'' then b
      else if a = [] \<or> last a = CHR ''/'' then a @ b
      else a @ ''/'' @ b)"

text \<open>A bound of a slice \<^verbatim>\<open>xs[i:j]\<close> on an axis of length \<open>n\<close>, as Python clips it.\<close>

definition py_slice_bound :: "nat \<Rightarrow> int \<Rightarrow> nat" where
  "py_slice_bound n i = (if i < 0 then nat (max 0 (i + int n)) else min (nat i) n)"

section \<open>Images\<close>

text \<open>
  A two-dimensional numpy array is its shape and its elements, read at row \<open>i\<close> and
  column \<open>j\<close>. Greyscale images hold \<^verbatim>\<open>uint8\<close> values.
\<close>

record 'a array2 =
  nrows :: nat
  ncols :: nat
  px :: "nat \<Rightarrow> nat \<Rightarrow> 'a"

type_synonym gray = "8 word array2"
type_synonym color = "8 word \<times> 8 word \<times> 8 word"
type_synonym rgba = "8 word \<times> 8 word \<times> 8 word \<times> 8 word"
type_synonym glyph = "rgba array2"
type_synonym point = "nat \<times> nat"
type_synonym contour = "point list"

datatype error = CvError | ValueError

text \<open>\<^verbatim>\<open>np.zeros((h, w), dtype=np.uint8)\<close>\<close>

definition zeros :: "nat \<Rightarrow> nat \<Rightarrow> gray" where
  "zeros h w = \<lparr>nrows = h, ncols = w, px = (\<lambda>i j. 0)\<rparr>"

text \<open>\<^verbatim>\<open>a[y:y+h, x:x+w]\<close> for non-negative bounds: the slice is clipped to the array.\<close>

definition slice2 :: "'a array2 \<Rightarrow> nat \<Rightarrow> nat \<Rightarrow> nat \<Rightarrow> nat \<Rightarrow> 'a array2" where
  "slice2 a y y' x x' =
     \<lparr>nrows = min y' (nrows a) - min y (nrows a),
      ncols = min x' (ncols a) - min x (ncols a),
      px = (\<lambda>i j. px a (y + i) (x + j))\<rparr>"

text \<open>\<^verbatim>\<open>cv2.copyMakeBorder(a, p, p, p, p, cv2.BORDER_CONSTANT, value=0)\<close>\<close>

definition copyMakeBorder :: "gray \<Rightarrow> nat \<Rightarrow> gray" where
  "copyMakeBorder a p =
     \<lparr>nrows = nrows a + 2 * p,
      ncols = ncols a + 2 * p,
      px = (\<lambda>i j. if p \<le> i \<and> i < p + nrows a \<and> p \<le> j \<and> j < p + ncols a
                   then px a (i - p) (j - p) else 0)\<rparr>"

text \<open>
  \<^verbatim>\<open>canvas[start:stop, 0:w] = src\<close> where \<open>w\<close> is the width of both arrays. numpy
  copies when the slice has as many rows as \<open>src\<close>, repeats the row of a one-row
  \<open>src\<close>, and raises \<^verbatim>\<open>ValueError\<close> otherwise.
\<close>

definition assign_rows :: "gray \<Rightarrow> int \<Rightarrow> int \<Rightarrow> gray \<Rightarrow> error + gray" where
  "assign_rows canvas start stop src =
     (let a = py_slice_bound (nrows canvas) start;
          b = py_slice_bound (nrows canvas) stop
      in if b - a = nrows src
         then Inr (canvas\<lparr>px := (\<lambda>i j. if a \<le> i \<and> i < b then px src (i - a) j
                                       else px canvas i j)\<rparr>)
         else if nrows src = 1
         then Inr (canvas\<lparr>px := (\<lambda>i j. if a \<le> i \<and> i < b then px src 0 j
                                       else px canvas i j)\<rparr>)
         else Inl ValueError)"

text \<open>
  One pass of \<^verbatim>\<open>cv2.dilate\<close> with a 2x2 kernel of ones (anchor at its centre (1, 1)):
  a pixel becomes the maximum of itself and its upper and left neighbours; pixels
  outside the image do not count.
\<close>

definition dilate2x2 :: "gray \<Rightarrow> gray" where
  "dilate2x2 a =
     a\<lparr>px := (\<lambda>i j.
        max (max (px a i j) (if 0 < j then px a i (j - 1) else 0))
            (max (if 0 < i then px a (i - 1) j else 0)
                 (if 0 < i \<and> 0 < j then px a (i - 1) (j - 1) else 0)))\<rparr>"

text \<open>\<^verbatim>\<open>cv2.threshold(a, t, maxval, cv2.THRESH_BINARY)\<close>\<close>

definition threshold_binary :: "8 word \<Rightarrow> 8 word \<Rightarrow> gray \<Rightarrow> gray" where
  "threshold_binary t maxval a = a\<lparr>px := (\<lambda>i j. if t < px a i j then maxval else 0)\<rparr>"

section \<open>What the engine does not compute itself\<close>

text \<open>
  The image library is a parameter: decoding to greyscale, Otsu's threshold, contour
  tracing, contour area, the bounding rectangle and the values that area interpolation
  gives a resized image are whatever the library returns. \<open>resize_area src w h\<close> gives
  the pixels of the resized image; its shape is the requested one.
\<close>

record 'img cv =
  cvtColor_gray :: "'img \<Rightarrow> gray"
  threshold_otsu_inv :: "gray \<Rightarrow> gray"
  findContours :: "gray \<Rightarrow> contour list"
  contourArea :: "contour \<Rightarrow> rat"
  boundingRect :: "point list \<Rightarrow> nat \<times> nat \<times> nat \<times> nat"
  resize_area :: "gray \<Rightarrow> nat \<Rightarrow> nat \<Rightarrow> nat \<Rightarrow> nat \<Rightarrow> 8 word"

text \<open>
  The world outside the program: the directories with their listings
  (\<^verbatim>\<open>os.path.isdir\<close>, \<^verbatim>\<open>os.listdir\<close>), the image files as \<^verbatim>\<open>cv2.imread\<close> decodes them
  (\<open>None\<close> when a file cannot be read), and the state of the global random generator,
  a supply of draws.
\<close>

record 'img world =
  dirs :: "string \<Rightarrow> string list option"
  files :: "string \<Rightarrow> 'img option"
  rng :: "nat stream"

section \<open>The engine\<close>

record engine =
  base_path :: string
  ink_color :: color
  std_size :: int
  line_height :: int
  char_spacing :: int

text \<open>\<^verbatim>\<open>NormalizedHandwritingEngine.__init__\<close>\<close>

definition init_engine :: "string \<Rightarrow> color \<Rightarrow> engine" where
  "init_engine path ink =
     \<lparr>base_path = path, ink_color = ink, std_size = 50, line_height = 65,
      char_spacing = 2\<rparr>"

subsection \<open>process_letter_contour\<close>

definition small_punct :: "string list" where
  "small_punct = [''.'', '','', [CHR 0x27], [CHR 0x22], [CHR 0x60], ''-'']"

definition tall_letters :: "string list" where
  "tall_letters = [''f'', ''t'', ''b'', ''d'', ''h'', ''k'', ''l'']"

definition descenders :: "string list" where
  "descenders = [''g'', ''j'', ''p'', ''q'', ''y'']"

definition short_letters :: "string list" where
  "short_letters = [''a'', ''c'', ''e'', ''i'', ''m'', ''n'', ''o'', ''r'', ''s'', ''u'',
                    ''v'', ''w'', ''x'', ''z'']"

text \<open>Lines 27-28: the contours kept for the bounding box.\<close>

definition valid_contours :: "'img cv \<Rightarrow> contour list \<Rightarrow> contour list" where
  "valid_contours lib contours =
     (let valid = filter (\<lambda>cnt. 10 < contourArea lib cnt) contours
      in if valid = [] then contours else valid)"

text \<open>Lines 30-46: the crop around the kept contours, with its border of 10 pixels.\<close>

definition letter_roi :: "'img cv \<Rightarrow> gray \<Rightarrow> contour list \<Rightarrow> gray" where
  "letter_roi lib thresh contours =
     (let all_points = concat (valid_contours lib contours);
          (x, y, w, h) = boundingRect lib all_points;
          roi = slice2 thresh y (y + h) x (x + w);
          roi_padding = 10
      in copyMakeBorder roi roi_padding)"

text \<open>Lines 55-73: the height the glyph is resized to.\<close>

definition target_height :: "engine \<Rightarrow> string \<Rightarrow> int" where
  "target_height eng char_ref =
     (let char_type = lower char_ref;
          safe_zone = std_size eng - 4
      in if char_type \<in> set small_punct
           then py_int (int_times_float safe_zone (float_literal (20 / 100)))
         else if char_type \<in> set tall_letters
           then py_int (int_times_float safe_zone (float_literal (65 / 100)))
         else if char_type \<in> set descenders
           then py_int (int_times_float safe_zone (float_literal (65 / 100)))
         else if char_type \<in> set short_letters
           then py_int (int_times_float safe_zone (float_literal (35 / 100)))
         else py_int (int_times_float safe_zone (float_literal (60 / 100))))"

text \<open>Lines 75-77: the width that goes with it.\<close>

definition resized_width :: "int \<Rightarrow> gray \<Rightarrow> int" where
  "resized_width new_h roi =
     (let h = int (nrows roi); w = int (ncols roi);
          aspect = true_div w h
      in py_int (int_times_float new_h aspect))"

text \<open>Line 86.\<close>

definition baseline_y :: "engine \<Rightarrow> int" where
  "baseline_y eng = py_int (int_times_float (std_size eng) (float_literal (70 / 100)))"

text \<open>Lines 88-108: the row of the canvas where the top of the resized glyph goes.\<close>

definition start_y :: "engine \<Rightarrow> string \<Rightarrow> int" where
  "start_y eng char_ref =
     (let char_type = lower char_ref;
          safe_zone = std_size eng - 4;
          new_h = target_height eng char_ref;
          y0 = (if char_type \<in> set [''.'', '','']
                  then baseline_y eng - new_h
                else if char_type \<in> set [[CHR 0x27], [CHR 0x22], [CHR 0x60]]
                  then py_int (int_times_float (std_size eng) (float_literal (15 / 100)))
                else if char_type \<in> set descenders
                  then (let short_letter_height =
                              py_int (int_times_float safe_zone (float_literal (35 / 100)));
                            x_height_top = baseline_y eng - short_letter_height
                        in x_height_top)
                else baseline_y eng - new_h);
          y1 = (if y0 < 0 then 0 else y0);
          y2 = (if std_size eng < y1 + new_h then std_size eng - new_h else y1)
      in y2)"

text \<open>
  The whole function. \<open>Inr None\<close> is the \<^verbatim>\<open>return None\<close> of lines 19 and 25, \<open>Inl\<close> an
  exception: \<^verbatim>\<open>cv2.resize\<close> rejects an empty target size, \<^verbatim>\<open>np.zeros\<close> a negative
  dimension, and the assignment of line 110 a slice of another shape.
\<close>

definition process_letter_contour ::
  "'img cv \<Rightarrow> engine \<Rightarrow> 'img world \<Rightarrow> string \<Rightarrow> string \<Rightarrow> error + glyph option" where
  "process_letter_contour lib eng world image_path char_ref =
     (case files world image_path of
        None \<Rightarrow> Inr None
      | Some img \<Rightarrow>
          let thresh = threshold_otsu_inv lib (cvtColor_gray lib img);
              contours = findContours lib thresh
          in if contours = [] then Inr None
             else
               let roi = letter_roi lib thresh contours;
                   new_h = target_height eng char_ref;
                   new_w = resized_width new_h roi
               in if new_w \<le> 0 \<or> new_h \<le> 0 then Inl CvError
                  else if std_size eng < 0 then Inl ValueError
                  else
                    let resized = \<lparr>nrows = nat new_h, ncols = nat new_w,
                                   px = resize_area lib roi (nat new_w) (nat new_h)\<rparr>;
                        norm_canvas = zeros (nat (std_size eng)) (nat new_w);
                        y = start_y eng char_ref
                    in (case assign_rows norm_canvas y (y + new_h) resized of
                          Inl e \<Rightarrow> Inl e
                        | Inr placed \<Rightarrow>
                            let dilated = dilate2x2 (dilate2x2 placed);
                                mask = threshold_binary 127 255 dilated;
                                (r, g, b) = ink_color eng
                            in Inr (Some \<lparr>nrows = nat (std_size eng), ncols = nat new_w,
                                          px = (\<lambda>i j. (r, g, b, px mask i j))\<rparr>)))"

subsection \<open>generate\<close>

text \<open>
  The page is the pen position and the canvas. The canvas is kept as the sequence of
  \<^verbatim>\<open>canvas.paste(img, (x, y), img)\<close> calls made on the blank page, in order.
\<close>

type_synonym item = "glyph option \<times> int"
type_synonym paste = "glyph \<times> int \<times> int"

record page =
  curr_x :: int
  curr_y :: int
  canvas :: "paste list"

definition SPECIAL_CHAR_MAP :: "(char \<times> string) list" where
  "SPECIAL_CHAR_MAP =
     [(CHR ''.'', ''dot''), (CHR 0x22, ''quote''), (CHR '':'', ''colon''),
      (CHR ''?'', ''question''), (CHR ''*'', ''asterisk''), (CHR ''/'', ''slash''),
      (CHR 0x5C, ''backslash''), (CHR ''<'', ''lt''), (CHR ''>'', ''gt''),
      (CHR ''|'', ''pipe''), (CHR '','', ''comma''), (CHR 0x27, ''apostrophe'')]"

definition start_x :: int where
  "start_x = 200"

definition max_x :: int where
  "max_x = 2200"

definition pixels_per_space :: "engine \<Rightarrow> int" where
  "pixels_per_space eng = py_int (int_times_float (std_size eng) (float_literal (4 / 10)))"

definition fallback_width :: "engine \<Rightarrow> int" where
  "fallback_width eng = py_int (int_times_float (std_size eng) (float_literal (5 / 10)))"

text \<open>\<^verbatim>\<open>random.choice(xs)\<close> on a non-empty list: one draw, one element.\<close>

definition random_choice :: "'img world \<Rightarrow> 'a list \<Rightarrow> 'a \<times> 'img world" where
  "random_choice world xs = (xs ! (shd (rng world) mod length xs), world\<lparr>rng := stl (rng world)\<rparr>)"

definition is_image_name :: "string \<Rightarrow> bool" where
  "is_image_name f =
     (endswith (lower f) ''.png'' \<or> endswith (lower f) ''.jpg'' \<or> endswith (lower f) ''.jpeg'')"

definition char_dir :: "engine \<Rightarrow> char \<Rightarrow> string" where
  "char_dir eng ch =
     (let folder_name = (case map_of SPECIAL_CHAR_MAP ch of
                           Some name \<Rightarrow> name
                         | None \<Rightarrow> lower [ch])
      in path_join (base_path eng) folder_name)"

text \<open>
  Lines 156-180, the body of the loop over the characters of a word: one item. A PIL
  image is always true, so \<^verbatim>\<open>if img:\<close> asks whether the normalizer returned one. An
  exception of the normalizer is not caught and ends the run.
\<close>

definition char_item ::
  "'img cv \<Rightarrow> engine \<Rightarrow> char \<Rightarrow> 'img world \<Rightarrow> error + (item \<times> 'img world)" where
  "char_item lib eng ch world =
     (case dirs world (char_dir eng ch) of
        None \<Rightarrow> Inr ((None, fallback_width eng), world)
      | Some listing \<Rightarrow>
          let variants = filter is_image_name listing
          in if variants = [] then Inr ((None, fallback_width eng), world)
             else
               let (variant, world') = random_choice world variants
               in (case process_letter_contour lib eng world'
                          (path_join (char_dir eng ch) variant) [ch] of
                     Inl e \<Rightarrow> Inl e
                   | Inr None \<Rightarrow> Inr ((None, fallback_width eng), world')
                   | Inr (Some img) \<Rightarrow>
                       Inr ((Some img, int (ncols img) + char_spacing eng), world')))"

text \<open>Lines 152-180: the items of a word and their total width.\<close>

fun word_items ::
  "'img cv \<Rightarrow> engine \<Rightarrow> string \<Rightarrow> item list \<times> int \<Rightarrow> 'img world
     \<Rightarrow> error + ((item list \<times> int) \<times> 'img world)" where
  "word_items lib eng [] acc world = Inr (acc, world)"
| "word_items lib eng (ch # chs) (items, word_total_width) world =
     (case char_item lib eng ch world of
        Inl e \<Rightarrow> Inl e
      | Inr ((img, width), world') \<Rightarrow>
          word_items lib eng chs (items @ [(img, width)], word_total_width + width) world')"

text \<open>Lines 183-185: the check that the word fits on the line.\<close>

definition wrap_word :: "engine \<Rightarrow> int \<Rightarrow> page \<Rightarrow> page" where
  "wrap_word eng word_total_width pg =
     (if max_x < curr_x pg + word_total_width
      then pg\<lparr>curr_x := start_x, curr_y := curr_y pg + line_height eng\<rparr>
      else pg)"

text \<open>Lines 188-196: drawing the word.\<close>

definition draw_item :: "item \<Rightarrow> page \<Rightarrow> page" where
  "draw_item it pg =
     (let (img, width) = it;
          pg' = (case img of
                   None \<Rightarrow> pg
                 | Some g \<Rightarrow> pg\<lparr>canvas := canvas pg @ [(g, curr_x pg, curr_y pg)]\<rparr>)
      in pg'\<lparr>curr_x := curr_x pg' + width\<rparr>)"

fun draw_items :: "item list \<Rightarrow> page \<Rightarrow> page" where
  "draw_items [] pg = pg"
| "draw_items (it # its) pg = draw_items its (draw_item it pg)"

text \<open>Lines 149-198, the body of the loop over the words of a line.\<close>

definition do_word ::
  "'img cv \<Rightarrow> engine \<Rightarrow> string \<Rightarrow> page \<times> 'img world \<Rightarrow> error + (page \<times> 'img world)" where
  "do_word lib eng word st =
     (let (pg, world) = st
      in case word_items lib eng word ([], 0) world of
           Inl e \<Rightarrow> Inl e
         | Inr ((items, word_total_width), world') \<Rightarrow>
             let pg1 = wrap_word eng word_total_width pg;
                 pg2 = draw_items items pg1
             in Inr (pg2\<lparr>curr_x := curr_x pg2 + pixels_per_space eng\<rparr>, world'))"

fun do_words ::
  "'img cv \<Rightarrow> engine \<Rightarrow> string list \<Rightarrow> page \<times> 'img world \<Rightarrow> error + (page \<times> 'img world)" where
  "do_words lib eng [] st = Inr st"
| "do_words lib eng (word # words) st =
     (case do_word lib eng word st of
        Inl e \<Rightarrow> Inl e
      | Inr st' \<Rightarrow> do_words lib eng words st')"

text \<open>Lines 146-201, the body of the loop over the lines of the text.\<close>

definition do_line ::
  "'img cv \<Rightarrow> engine \<Rightarrow> string \<Rightarrow> page \<times> 'img world \<Rightarrow> error + (page \<times> 'img world)" where
  "do_line lib eng line st =
     (case do_words lib eng (split_on CHR '' '' line) st of
        Inl e \<Rightarrow> Inl e
      | Inr (pg, world) \<Rightarrow>
          Inr (pg\<lparr>curr_x := start_x, curr_y := curr_y pg + line_height eng\<rparr>, world))"

fun do_lines ::
  "'img cv \<Rightarrow> engine \<Rightarrow> string list \<Rightarrow> page \<times> 'img world \<Rightarrow> error + (page \<times> 'img world)" where
  "do_lines lib eng [] st = Inr st"
| "do_lines lib eng (line # lines) st =
     (case do_line lib eng line st of
        Inl e \<Rightarrow> Inl e
      | Inr st' \<Rightarrow> do_lines lib eng lines st')"

text \<open>
  Lines 123-201: the page as it stands when the drawing loop ends. Saving it is left
  to the output sink.
\<close>

definition generate ::
  "'img cv \<Rightarrow> engine \<Rightarrow> string \<Rightarrow> 'img world \<Rightarrow> error + (page \<times> 'img world)" where
  "generate lib eng text world =
     do_lines lib eng (split_on (CHR 0x0A) text)
       (\<lparr>curr_x = start_x, curr_y = 200, canvas = []\<rparr>, world)"

text \<open>
  The items alone: what the loop over the characters (lines 155-180) builds for every
  word of a line, and for every line of the text, in the order \<open>generate\<close> visits them.
  Only this part of \<open>generate\<close> touches the world.
\<close>

fun words_items ::
  "'img cv \<Rightarrow> engine \<Rightarrow> string list \<Rightarrow> 'img world \<Rightarrow> error + (item list list \<times> 'img world)" where
  "words_items lib eng [] world = Inr ([], world)"
| "words_items lib eng (word # words) world =
     (case word_items lib eng word ([], 0) world of
        Inl e \<Rightarrow> Inl e
      | Inr ((items, word_total_width), world') \<Rightarrow>
          (case words_items lib eng words world' of
             Inl e \<Rightarrow> Inl e
           | Inr (rest, world'') \<Rightarrow> Inr (items # rest, world'')))"

fun lines_items ::
  "'img cv \<Rightarrow> engine \<Rightarrow> string list \<Rightarrow> 'img world
     \<Rightarrow> error + (item list list list \<times> 'img world)" where
  "lines_items lib eng [] world = Inr ([], world)"
| "lines_items lib eng (line # lines) world =
     (case words_items lib eng (split_on CHR '' '' line) world of
        Inl e \<Rightarrow> Inl e
      | Inr (its, world') \<Rightarrow>
          (case lines_items lib eng lines world' of
             Inl e \<Rightarrow> Inl e
           | Inr (rest, world'') \<Rightarrow> Inr (its # rest, world'')))"

text \<open>\<^verbatim>\<open>img.size\<close> of what \<open>process_letter_contour\<close> returns, as (width, height).\<close>

definition returned_size :: "error + glyph option \<Rightarrow> (nat \<times> nat) option" where
  "returned_size r = (case r of Inr (Some g) \<Rightarrow> Some (ncols g, nrows g) | _ \<Rightarrow> None)"

section \<open>The specification's vocabulary\<close>

text \<open>
  The specification sorts characters into five classes and gives each class a ratio of
  the safe zone. These two definitions follow its words, not the code; the theorems
  below compare them with \<open>target_height\<close>.
\<close>

datatype char_class = SmallPunctuation | TallAscender | Descender | Short | Default

definition spec_classify :: "string \<Rightarrow> char_class" where
  "spec_classify character =
     (let c = lower character
      in if c \<in> {''.'', '','', [CHR 0x27], [CHR 0x22], [CHR 0x60], ''-''} then SmallPunctuation
         else if c \<in> {''f'', ''t'', ''b'', ''d'', ''h'', ''k'', ''l''} then TallAscender
         else if c \<in> {''g'', ''j'', ''p'', ''q'', ''y''} then Descender
         else if c \<in> {''a'', ''c'', ''e'', ''i'', ''m'', ''n'', ''o'', ''r'', ''s'', ''u'',
                       ''v'', ''w'', ''x'', ''z''} then Short
         else Default)"

fun spec_ratio :: "char_class \<Rightarrow> rat" where
  "spec_ratio SmallPunctuation = 20 / 100"
| "spec_ratio TallAscender = 65 / 100"
| "spec_ratio Descender = 65 / 100"
| "spec_ratio Short = 35 / 100"
| "spec_ratio Default = 60 / 100"

text \<open>
  Drawing a word's items from left to right on one row, as the specification describes
  it: the pastes a word adds to the canvas when its first item starts at \<open>(x, y)\<close>.
\<close>

fun laid_out :: "int \<Rightarrow> int \<Rightarrow> item list \<Rightarrow> paste list" where
  "laid_out x y [] = []"
| "laid_out x y ((None, width) # its) = laid_out (x + width) y its"
| "laid_out x y ((Some g, width) # its) = (g, x, y) # laid_out (x + width) y its"

text \<open>
  The specification's layout of a text, steps 4 to 8 of its composer: each word is placed
  as a whole. If the pen's \<open>x\<close> plus the word's total width exceeds the right margin the
  word starts at the left margin one line lower, otherwise at the pen; its items are
  drawn from there on one row; the pen then moves past the word and one space. After a
  line the pen returns to the left margin one line lower. The result is the pastes of
  every word, one list per word in reading order, and the pen at the end.
\<close>

fun spec_words ::
  "engine \<Rightarrow> item list list \<Rightarrow> int \<times> int \<Rightarrow> paste list list \<times> (int \<times> int)" where
  "spec_words eng [] pen = ([], pen)"
| "spec_words eng (items # rest) (x, y) =
     (let word_width = sum_list (map snd items);
          (x0, y0) = (if max_x < x + word_width then (start_x, y + line_height eng)
                      else (x, y));
          (placed, pen') = spec_words eng rest (x0 + word_width + pixels_per_space eng, y0)
      in (laid_out x0 y0 items # placed, pen'))"

fun spec_lines ::
  "engine \<Rightarrow> item list list list \<Rightarrow> int \<times> int \<Rightarrow> paste list list \<times> (int \<times> int)" where
  "spec_lines eng [] pen = ([], pen)"
| "spec_lines eng (line # lines) pen =
     (let (placed, (x, y)) = spec_words eng line pen;
          (placed', pen') = spec_lines eng lines (start_x, y + line_height eng)
      in (placed @ placed', pen'))"

section \<open>A worked example\<close>

text \<open>
  One library behaviour and one world, for evaluating the engine on concrete input.
  Samples are greyscale already and the threshold sits at 127; a sample whose top-left
  pixel is ink is traced as one rectangle along the border of the image; the area of a
  contour is Green's formula over its points, as OpenCV computes it, and the bounding
  rectangle spans their extreme coordinates; a resized pixel is the nearest source pixel.
\<close>

definition polygon_area :: "contour \<Rightarrow> rat" where
  "polygon_area ps =
     \<bar>sum_list (map (\<lambda>((x1, y1), (x2, y2)). of_nat x1 * of_nat y2 - of_nat x2 * of_nat y1)
                   (zip ps (rotate1 ps)))\<bar> / 2"

definition bounding_box :: "point list \<Rightarrow> nat \<times> nat \<times> nat \<times> nat" where
  "bounding_box ps =
     (let xs = map fst ps; ys = map snd ps;
          x = fold min xs (hd xs); y = fold min ys (hd ys);
          x' = fold max xs (hd xs); y' = fold max ys (hd ys)
      in (x, y, x' - x + 1, y' - y + 1))"

definition sample_cv :: "gray cv" where
  "sample_cv =
     \<lparr>cvtColor_gray = (\<lambda>img. img),
      threshold_otsu_inv = (\<lambda>a. a\<lparr>px := (\<lambda>i j. if 127 < px a i j then 0 else 255)\<rparr>),
      findContours = (\<lambda>a. if 0 < nrows a \<and> 0 < ncols a \<and> px a 0 0 = 255
                           then [[(0, 0), (0, nrows a - 1), (ncols a - 1, nrows a - 1),
                                  (ncols a - 1, 0)]]
                           else []),
      contourArea = polygon_area,
      boundingRect = bounding_box,
      resize_area = (\<lambda>src w h i j. px src (i * nrows src div h) (j * ncols src div w))\<rparr>"

definition sample_ink :: gray where
  "sample_ink = \<lparr>nrows = 30, ncols = 20, px = (\<lambda>i j. 0)\<rparr>"

definition sample_blank :: gray where
  "sample_blank = \<lparr>nrows = 30, ncols = 20, px = (\<lambda>i j. 255)\<rparr>"

text \<open>A small mark of 11x9 pixels and a long stroke of 980x30 pixels, both solid ink.\<close>

definition sample_small :: gray where
  "sample_small = \<lparr>nrows = 9, ncols = 11, px = (\<lambda>i j. 0)\<rparr>"

definition sample_wide :: gray where
  "sample_wide = \<lparr>nrows = 30, ncols = 980, px = (\<lambda>i j. 0)\<rparr>"

definition sample_world :: "gray world" where
  "sample_world =
     \<lparr>dirs = (\<lambda>d. if d = ''my_letters/a'' then Some [''a1.png'', ''notes.txt'']
                  else if d = ''my_letters/b'' then Some [''readme.txt'']
                  else if d = ''my_letters/c'' then Some [''c1.PNG'']
                  else if d = ''my_letters/t'' then Some [''t1.png'']
                  else if d = ''my_letters/w'' then Some [''w1.jpg'']
                  else None),
      files = (\<lambda>f. if f = ''my_letters/a/a1.png'' then Some sample_ink
                   else if f = ''my_letters/c/c1.PNG'' then Some sample_blank
                   else if f = ''my_letters/t/t1.png'' then Some sample_small
                   else if f = ''my_letters/w/w1.jpg'' then Some sample_wide
                   else None),
      rng = sconst 0\<rparr>"

definition sample_engine :: engine where
  "sample_engine = init_engine ''my_letters'' (20, 24, 82)"

text \<open>
  Two contours as \<^verbatim>\<open>cv2.findContours\<close> reports them for filled rectangles: a blob of
  6x3 pixels, whose contour through the pixel centres encloses 5 * 2 = 10, and a stroke
  of 5x10 pixels.
\<close>

definition blob :: contour where
  "blob = [(0, 0), (0, 2), (5, 2), (5, 0)]"

definition stroke :: contour where
  "stroke = [(10, 0), (10, 9), (14, 9), (14, 0)]"

text \<open>A text of two lines: two words, a line break, one word.\<close>

definition two_lines :: string where
  "two_lines = ''wwww www'' @ [CHR 0x0A] @ ''w''"

definition page_near_margin :: page where
  "page_near_margin = \<lparr>curr_x = 2195, curr_y = 200, canvas = []\<rparr>"

section \<open>The rounding model on familiar values\<close>

text \<open>
  \<^verbatim>\<open>0.1\<close> is the double \<^verbatim>\<open>0x3FB999999999999A\<close>; \<^verbatim>\<open>3 * 0.1\<close> is
  \<^verbatim>\<open>0.30000000000000004\<close>; \<^verbatim>\<open>49 * (1 / 49)\<close> is \<^verbatim>\<open>0.9999999999999999\<close>, which
  \<^verbatim>\<open>int\<close> truncates to 0; \<^verbatim>\<open>int(-2.6)\<close> is -2.
\<close>

lemma float_literal_tenth: "float_literal (1 / 10) = 7205759403792794 / 2 ^ 56"
  by code_simp

lemma three_tenths: "int_times_float 3 (float_literal (1 / 10)) = 5404319552844596 / 2 ^ 54"
  by code_simp

lemma forty_nine_times_its_inverse:
  "int_times_float 49 (true_div 1 49) = 9007199254740991 / 2 ^ 53
   \<and> py_int (int_times_float 49 (true_div 1 49)) = 0"
  by code_simp

lemma py_int_truncates: "py_int (- 26 / 10) = - 2 \<and> py_int (26 / 10) = 2"
  by code_simp

text \<open>
  \<^verbatim>\<open>'Q'.lower()\<close> is \<^verbatim>\<open>'q'\<close>; E acute, \<^verbatim>\<open>0xC9\<close>, lowers to \<^verbatim>\<open>0xE9\<close>; the
  multiplication sign \<^verbatim>\<open>0xD7\<close> and the sharp s \<^verbatim>\<open>0xDF\<close> stay.
\<close>

lemma lower_char_values:
  "lower_char CHR ''Q'' = CHR ''q''" "lower_char (CHR 0xC9) = CHR 0xE9"
  "lower_char (CHR 0xD7) = CHR 0xD7" "lower_char (CHR 0xDF) = CHR 0xDF"
  "lower_char CHR ''q'' = CHR ''q''" "lower_char CHR ''.'' = CHR ''.''"
  by code_simp+

section \<open>Evaluating the sizes\<close>

text \<open>The products the engine truncates, at the constructor's \<open>std_size = 50\<close> and at 0.\<close>

lemma trunc_46_by_020: "py_int (int_times_float 46 (float_literal (1 / 5))) = 9"
  by code_simp

lemma trunc_46_by_065: "py_int (int_times_float 46 (float_literal (13 / 20))) = 29"
  by code_simp

lemma trunc_46_by_035: "py_int (int_times_float 46 (float_literal (7 / 20))) = 16"
  by code_simp

lemma trunc_46_by_060: "py_int (int_times_float 46 (float_literal (3 / 5))) = 27"
  by code_simp

lemma trunc_50_by_070: "py_int (int_times_float 50 (float_literal (7 / 10))) = 35"
  by code_simp

lemma trunc_50_by_015: "py_int (int_times_float 50 (float_literal (3 / 20))) = 7"
  by code_simp

lemma trunc_50_by_040: "py_int (int_times_float 50 (float_literal (2 / 5))) = 20"
  by code_simp

lemma trunc_50_by_050: "py_int (int_times_float 50 (float_literal (1 / 2))) = 25"
  by code_simp

lemma trunc_neg4_by_020: "py_int (int_times_float (- 4) (float_literal (1 / 5))) = 0"
  by code_simp

lemma trunc_neg4_by_065: "py_int (int_times_float (- 4) (float_literal (13 / 20))) = - 2"
  by code_simp

lemma trunc_neg4_by_035: "py_int (int_times_float (- 4) (float_literal (7 / 20))) = - 1"
  by code_simp

lemma trunc_neg4_by_060: "py_int (int_times_float (- 4) (float_literal (3 / 5))) = - 2"
  by code_simp

lemma std_size_init: "std_size (init_engine p ink) = 50"
  by (simp add: init_engine_def)

lemma target_height_init:
  "target_height (init_engine p ink) c =
     (case spec_classify c of SmallPunctuation \<Rightarrow> 9 | TallAscender \<Rightarrow> 29 | Descender \<Rightarrow> 29
      | Short \<Rightarrow> 16 | Default \<Rightarrow> 27)"
  by (simp add: target_height_def spec_classify_def std_size_init trunc_46_by_020 trunc_46_by_065 trunc_46_by_035 trunc_46_by_060
      small_punct_def tall_letters_def descenders_def short_letters_def Let_def)

lemma floor_ratio:
  "\<lfloor>spec_ratio SmallPunctuation * of_int 46\<rfloor> = 9"
  "\<lfloor>spec_ratio TallAscender * of_int 46\<rfloor> = 29"
  "\<lfloor>spec_ratio Descender * of_int 46\<rfloor> = 29"
  "\<lfloor>spec_ratio Short * of_int 46\<rfloor> = 16"
  "\<lfloor>spec_ratio Default * of_int 46\<rfloor> = 27"
  by code_simp+

lemma round_ratio_tall: "round (spec_ratio TallAscender * of_int 46) = 30"
  by code_simp

lemma safe_zone_init: "std_size (init_engine p ink) - 4 = 46"
  by (simp add: init_engine_def)

lemma classify_t: "spec_classify ''t'' = TallAscender"
  by (simp add: spec_classify_def lower_def lower_char_def)

lemma baseline_init: "baseline_y (init_engine p ink) = 35"
  by (simp add: baseline_y_def std_size_init trunc_50_by_070)

section \<open>The normalizer, step by step\<close>

lemma start_y_upper: "start_y eng c + target_height eng c \<le> std_size eng"
  by (simp add: start_y_def Let_def)

lemma start_y_negative:
  "start_y eng c < 0 \<Longrightarrow> start_y eng c = std_size eng - target_height eng c"
  by (simp add: start_y_def Let_def split: if_splits)

lemma target_height_zero_size: "std_size eng = 0 \<Longrightarrow> target_height eng c \<le> 0"
  by (simp add: target_height_def Let_def trunc_neg4_by_020 trunc_neg4_by_065 trunc_neg4_by_035 trunc_neg4_by_060)

lemma process_SomeE:
  assumes "process_letter_contour lib eng world path c = Inr (Some g)"
  obtains img placed where
    "files world path = Some img"
    "findContours lib (threshold_otsu_inv lib (cvtColor_gray lib img)) \<noteq> []"
    "0 < target_height eng c"
    "0 < resized_width (target_height eng c)
           (letter_roi lib (threshold_otsu_inv lib (cvtColor_gray lib img))
              (findContours lib (threshold_otsu_inv lib (cvtColor_gray lib img))))"
    "0 \<le> std_size eng"
    "assign_rows
       (zeros (nat (std_size eng))
          (nat (resized_width (target_height eng c)
            (letter_roi lib (threshold_otsu_inv lib (cvtColor_gray lib img))
              (findContours lib (threshold_otsu_inv lib (cvtColor_gray lib img)))))))
       (start_y eng c) (start_y eng c + target_height eng c)
       \<lparr>nrows = nat (target_height eng c),
        ncols = nat (resized_width (target_height eng c)
            (letter_roi lib (threshold_otsu_inv lib (cvtColor_gray lib img))
              (findContours lib (threshold_otsu_inv lib (cvtColor_gray lib img))))),
        px = resize_area lib
            (letter_roi lib (threshold_otsu_inv lib (cvtColor_gray lib img))
              (findContours lib (threshold_otsu_inv lib (cvtColor_gray lib img))))
            (nat (resized_width (target_height eng c)
            (letter_roi lib (threshold_otsu_inv lib (cvtColor_gray lib img))
              (findContours lib (threshold_otsu_inv lib (cvtColor_gray lib img))))))
            (nat (target_height eng c))\<rparr>
     = Inr placed"
    "nrows g = nat (std_size eng)"
    "ncols g = nat (resized_width (target_height eng c)
            (letter_roi lib (threshold_otsu_inv lib (cvtColor_gray lib img))
              (findContours lib (threshold_otsu_inv lib (cvtColor_gray lib img)))))"
    "px g = (\<lambda>i j. (fst (ink_color eng), fst (snd (ink_color eng)), snd (snd (ink_color eng)),
                     px (threshold_binary 127 255 (dilate2x2 (dilate2x2 placed))) i j))"
  using assms
  by (auto simp: process_letter_contour_def Let_def
      split: option.splits if_splits sum.splits prod.splits)

section \<open>The composer, step by step\<close>

lemma laid_out_row: "p \<in> set (laid_out x y items) \<Longrightarrow> snd (snd p) = y"
  by (induction x y items rule: laid_out.induct) auto

lemma draw_items_result:
  "canvas (draw_items items pg) = canvas pg @ laid_out (curr_x pg) (curr_y pg) items
   \<and> curr_y (draw_items items pg) = curr_y pg
   \<and> curr_x (draw_items items pg) = curr_x pg + sum_list (map snd items)"
proof (induction items arbitrary: pg)
  case Nil
  show ?case by simp
next
  case (Cons it items)
  obtain img width where it: "it = (img, width)" by (cases it)
  show ?case
    using Cons [of "draw_item it pg"]
    by (cases img) (simp_all add: it draw_item_def)
qed

lemma word_items_total:
  "word_items lib eng word (items0, t0) world = Inr ((items, t), world')
   \<Longrightarrow> t - sum_list (map snd items) = t0 - sum_list (map snd items0)"
proof (induction word arbitrary: items0 t0 world)
  case Nil
  then show ?case by simp
next
  case (Cons ch chs)
  then show ?case
    by (fastforce split: sum.splits prod.splits)
qed

lemma word_items_length:
  "word_items lib eng word (items0, t0) world = Inr ((items, t), world')
   \<Longrightarrow> length items = length items0 + length word"
proof (induction word arbitrary: items0 t0 world)
  case Nil
  then show ?case by simp
next
  case (Cons ch chs)
  then show ?case
    by (fastforce split: sum.splits prod.splits)
qed

lemma do_word_layout:
  assumes "do_word lib eng word (pg, world) = Inr (pg', world')"
  shows "\<exists>items.
           word_items lib eng word ([], 0) world
             = Inr ((items, sum_list (map snd items)), world')
         \<and> length items = length word
         \<and> (let wrapped = (max_x < curr_x pg + sum_list (map snd items));
                 x0 = (if wrapped then start_x else curr_x pg);
                 y0 = (if wrapped then curr_y pg + line_height eng else curr_y pg)
             in canvas pg' = canvas pg @ laid_out x0 y0 items
              \<and> curr_y pg' = y0
              \<and> curr_x pg' = x0 + sum_list (map snd items) + pixels_per_space eng)"
proof -
  from assms obtain items t where
    wi: "word_items lib eng word ([], 0) world = Inr ((items, t), world')" and
    pg': "pg' = (draw_items items (wrap_word eng t pg))
                \<lparr>curr_x := curr_x (draw_items items (wrap_word eng t pg))
                           + pixels_per_space eng\<rparr>"
    by (auto simp: do_word_def Let_def split: sum.splits prod.splits)
  from word_items_total [OF wi] have t: "t = sum_list (map snd items)"
    by simp
  from word_items_length [OF wi] have len: "length items = length word"
    by simp
  show ?thesis
    using wi len
    by (intro exI [of _ items])
      (auto simp: t pg' draw_items_result wrap_word_def Let_def)
qed

lemma do_words_layout:
  "do_words lib eng words (pg, world) = Inr (pg', world')
   \<Longrightarrow> \<exists>itemss.
         words_items lib eng words world = Inr (itemss, world')
       \<and> map length itemss = map length words
       \<and> canvas pg' = canvas pg @ concat (fst (spec_words eng itemss (curr_x pg, curr_y pg)))
       \<and> (curr_x pg', curr_y pg') = snd (spec_words eng itemss (curr_x pg, curr_y pg))"
proof (induction words arbitrary: pg world)
  case Nil
  then show ?case by simp
next
  case (Cons word words)
  from Cons.prems obtain pg1 world1 where
    w: "do_word lib eng word (pg, world) = Inr (pg1, world1)" and
    ws: "do_words lib eng words (pg1, world1) = Inr (pg', world')"
    by (auto split: sum.splits)
  from do_word_layout [OF w] obtain items where
    wi: "word_items lib eng word ([], 0) world
           = Inr ((items, sum_list (map snd items)), world1)" and
    len: "length items = length word" and
    cv: "canvas pg1 = canvas pg @
           laid_out (if max_x < curr_x pg + sum_list (map snd items) then start_x else curr_x pg)
             (if max_x < curr_x pg + sum_list (map snd items)
              then curr_y pg + line_height eng else curr_y pg) items" and
    y: "curr_y pg1 = (if max_x < curr_x pg + sum_list (map snd items)
              then curr_y pg + line_height eng else curr_y pg)" and
    x: "curr_x pg1 = (if max_x < curr_x pg + sum_list (map snd items) then start_x
              else curr_x pg) + sum_list (map snd items) + pixels_per_space eng"
    by (auto simp: Let_def)
  from Cons.IH [OF ws] obtain rest where
    r: "words_items lib eng words world1 = Inr (rest, world')" and
    rlen: "map length rest = map length words" and
    rcv: "canvas pg' = canvas pg1 @ concat (fst (spec_words eng rest (curr_x pg1, curr_y pg1)))" and
    rpen: "(curr_x pg', curr_y pg') = snd (spec_words eng rest (curr_x pg1, curr_y pg1))"
    by blast
  show ?case
    using wi r len rlen rcv rpen cv
    by (intro exI [of _ "items # rest"])
      (auto simp: x y Let_def split: prod.splits)
qed

lemma do_lines_layout:
  "do_lines lib eng lines (pg, world) = Inr (pg', world')
   \<Longrightarrow> \<exists>itemss.
         lines_items lib eng lines world = Inr (itemss, world')
       \<and> map (map length) itemss = map (map length) (map (split_on CHR '' '') lines)
       \<and> canvas pg' = canvas pg @ concat (fst (spec_lines eng itemss (curr_x pg, curr_y pg)))
       \<and> (curr_x pg', curr_y pg') = snd (spec_lines eng itemss (curr_x pg, curr_y pg))"
proof (induction lines arbitrary: pg world)
  case Nil
  then show ?case by simp
next
  case (Cons line lines)
  from Cons.prems obtain pg1 world1 where
    l: "do_words lib eng (split_on CHR '' '' line) (pg, world) = Inr (pg1, world1)" and
    ls: "do_lines lib eng lines
           (pg1\<lparr>curr_x := start_x, curr_y := curr_y pg1 + line_height eng\<rparr>, world1)
         = Inr (pg', world')"
    by (auto simp: do_line_def split: sum.splits prod.splits)
  from do_words_layout [OF l] obtain its where
    wi: "words_items lib eng (split_on CHR '' '' line) world = Inr (its, world1)" and
    len: "map length its = map length (split_on CHR '' '' line)" and
    cv: "canvas pg1 = canvas pg @ concat (fst (spec_words eng its (curr_x pg, curr_y pg)))" and
    pen: "(curr_x pg1, curr_y pg1) = snd (spec_words eng its (curr_x pg, curr_y pg))"
    by blast
  from Cons.IH [OF ls] obtain rest where
    r: "lines_items lib eng lines world1 = Inr (rest, world')" and
    rlen: "map (map length) rest = map (map length) (map (split_on CHR '' '') lines)" and
    rcv: "canvas pg' = canvas pg1 @
            concat (fst (spec_lines eng rest (start_x, curr_y pg1 + line_height eng)))" and
    rpen: "(curr_x pg', curr_y pg')
            = snd (spec_lines eng rest (start_x, curr_y pg1 + line_height eng))"
    by auto
  obtain placed x y where sw: "spec_words eng its (curr_x pg, curr_y pg) = (placed, (x, y))"
    by (metis prod.exhaust)
  with pen have y: "curr_y pg1 = y" by simp
  show ?case
    using wi r len rlen rcv rpen cv
    by (intro exI [of _ "its # rest"])
      (auto simp: sw y split: prod.splits)
qed

lemma laid_out_one_row:
  "p \<in> set (laid_out x y items) \<Longrightarrow> q \<in> set (laid_out x y items)
   \<Longrightarrow> snd (snd p) = snd (snd q)"
  by (simp add: laid_out_row)

lemma spec_words_rows:
  "wp \<in> set (fst (spec_words eng itemss pen)) \<Longrightarrow> p \<in> set wp \<Longrightarrow> q \<in> set wp
   \<Longrightarrow> snd (snd p) = snd (snd q)"
proof (induction itemss arbitrary: pen)
  case Nil
  then show ?case by simp
next
  case (Cons items rest)
  obtain x y where pen: "pen = (x, y)" by (cases pen)
  from Cons.prems Cons.IH show ?case
    by (auto simp: pen Let_def case_prod_beta split: if_splits intro: laid_out_one_row)
qed

lemma spec_words_length: "length (fst (spec_words eng itemss pen)) = length itemss"
proof (induction itemss arbitrary: pen)
  case Nil
  show ?case by simp
next
  case (Cons items rest)
  obtain x y where pen: "pen = (x, y)" by (cases pen)
  from Cons.IH show ?case
    by (simp add: pen Let_def case_prod_beta)
qed

lemma spec_lines_rows:
  "wp \<in> set (fst (spec_lines eng itemss pen)) \<Longrightarrow> p \<in> set wp \<Longrightarrow> q \<in> set wp
   \<Longrightarrow> snd (snd p) = snd (snd q)"
proof (induction itemss arbitrary: pen)
  case Nil
  then show ?case by simp
next
  case (Cons its rest)
  from Cons.prems Cons.IH show ?case
    by (auto simp: Let_def case_prod_beta dest: spec_words_rows)
qed

lemma spec_lines_length:
  "length (fst (spec_lines eng itemss pen)) = length (concat itemss)"
proof (induction itemss arbitrary: pen)
  case Nil
  show ?case by simp
next
  case (Cons its rest)
  from Cons.IH spec_words_length [of eng its pen] show ?case
    by (simp add: Let_def case_prod_beta)
qed

section \<open>The worked example, evaluated\<close>

lemma area_rect: "polygon_area [(0, 0), (0, 29), (19, 29), (19, 0)] = 551"
  by (simp add: polygon_area_def)

lemma box_rect: "bounding_box [(0, 0), (0, 29), (19, 29), (19, 0)] = (0, 0, 20, 30)"
  by (simp add: bounding_box_def)

lemma width_a: "py_int (int_times_float 16 (true_div 40 50)) = 12"
  by code_simp

lemma classify_a: "spec_classify ''a'' = Short"
  by (simp add: spec_classify_def lower_def lower_char_def)

lemma start_y_a: "start_y sample_engine ''a'' = 19"
  by (simp add: start_y_def sample_engine_def target_height_init classify_a baseline_init
        std_size_init descenders_def lower_def lower_char_def)

lemma contours_a:
  "findContours sample_cv (threshold_otsu_inv sample_cv (cvtColor_gray sample_cv sample_ink))
   = [[(0, 0), (0, 29), (19, 29), (19, 0)]]"
  by (simp add: sample_cv_def sample_ink_def)

lemma roi_a:
  "letter_roi sample_cv (threshold_otsu_inv sample_cv (cvtColor_gray sample_cv sample_ink))
     [[(0, 0), (0, 29), (19, 29), (19, 0)]]
   = copyMakeBorder \<lparr>nrows = 30, ncols = 20, px = (\<lambda>i j. 255)\<rparr> 10"
  by (simp add: letter_roi_def valid_contours_def sample_cv_def sample_ink_def area_rect
      box_rect slice2_def)

lemma target_a: "target_height sample_engine ''a'' = 16"
  by (simp add: sample_engine_def target_height_init classify_a)

lemma engine_a:
  "std_size sample_engine = 50" "ink_color sample_engine = (20, 24, 82)"
  "base_path sample_engine = ''my_letters''" "char_spacing sample_engine = 2"
  "line_height sample_engine = 65"
  by (simp_all add: sample_engine_def init_engine_def)

lemma sample_a_success:
  "\<exists>g. process_letter_contour sample_cv sample_engine sample_world
          ''my_letters/a/a1.png'' ''a'' = Inr (Some g)"
  by (simp add: process_letter_contour_def sample_world_def contours_a roi_a target_a
      resized_width_def copyMakeBorder_def width_a start_y_a assign_rows_def
      py_slice_bound_def zeros_def engine_a Let_def)

lemma dir_a: "char_dir sample_engine CHR ''a'' = ''my_letters/a''"
  and dir_b: "char_dir sample_engine CHR ''b'' = ''my_letters/b''"
  and dir_c: "char_dir sample_engine CHR ''c'' = ''my_letters/c''"
  and dir_d: "char_dir sample_engine CHR ''d'' = ''my_letters/d''"
  by (simp_all add: char_dir_def SPECIAL_CHAR_MAP_def lower_def lower_char_def
      path_join_def engine_a)

lemma image_names:
  "is_image_name ''a1.png''" "\<not> is_image_name ''notes.txt''"
  "\<not> is_image_name ''readme.txt''" "is_image_name ''c1.PNG''"
  by code_simp+

lemma fallback_sample: "fallback_width sample_engine = 25"
  by (simp add: fallback_width_def engine_a trunc_50_by_050)

lemma space_sample: "pixels_per_space sample_engine = 20"
  by (simp add: pixels_per_space_def engine_a trunc_50_by_040)

lemma contours_blank:
  "findContours sample_cv (threshold_otsu_inv sample_cv (cvtColor_gray sample_cv sample_blank))
   = []"
  by (simp add: sample_cv_def sample_blank_def)

lemma choice_c: "random_choice sample_world [''c1.PNG''] = (''c1.PNG'', sample_world)"
  by (simp add: random_choice_def sample_world_def)

lemma area_blob: "polygon_area blob = 10" and area_stroke: "polygon_area stroke = 36"
  by (simp_all add: polygon_area_def blob_def stroke_def)

lemma area_sample: "contourArea sample_cv = polygon_area"
  by (simp add: sample_cv_def)

lemma blob_not_stroke: "blob \<noteq> stroke"
  by (simp add: blob_def stroke_def)

lemma files_a: "files sample_world ''my_letters/a/a1.png'' = Some sample_ink"
  by (simp add: sample_world_def)

lemma classify_w: "spec_classify ''w'' = Short"
  by (simp add: spec_classify_def lower_def lower_char_def)

lemma area_wide: "polygon_area [(0, 0), (0, 29), (979, 29), (979, 0)] = 28391"
  by (simp add: polygon_area_def)

lemma box_wide: "bounding_box [(0, 0), (0, 29), (979, 29), (979, 0)] = (0, 0, 980, 30)"
  by (simp add: bounding_box_def)

lemma width_w: "py_int (int_times_float 16 (true_div 1000 50)) = 320"
  by code_simp

lemma contours_w:
  "findContours sample_cv (threshold_otsu_inv sample_cv (cvtColor_gray sample_cv sample_wide))
   = [[(0, 0), (0, 29), (979, 29), (979, 0)]]"
  by (simp add: sample_cv_def sample_wide_def)

lemma roi_w:
  "letter_roi sample_cv (threshold_otsu_inv sample_cv (cvtColor_gray sample_cv sample_wide))
     [[(0, 0), (0, 29), (979, 29), (979, 0)]]
   = copyMakeBorder \<lparr>nrows = 30, ncols = 980, px = (\<lambda>i j. 255)\<rparr> 10"
  by (simp add: letter_roi_def valid_contours_def sample_cv_def sample_wide_def area_wide
      box_wide slice2_def)

lemma target_w: "target_height sample_engine ''w'' = 16"
  by (simp add: sample_engine_def target_height_init classify_w)

lemma start_y_w: "start_y sample_engine ''w'' = 19"
  by (simp add: start_y_def sample_engine_def target_height_init classify_w baseline_init
        std_size_init descenders_def lower_def lower_char_def)

lemma sample_w_glyph:
  "\<exists>g. process_letter_contour sample_cv sample_engine sample_world
          ''my_letters/w/w1.jpg'' ''w'' = Inr (Some g) \<and> ncols g = 320"
  by (simp add: process_letter_contour_def sample_world_def contours_w roi_w target_w
      resized_width_def copyMakeBorder_def width_w start_y_w assign_rows_def
      py_slice_bound_def zeros_def engine_a Let_def)

lemma dir_w: "char_dir sample_engine CHR ''w'' = ''my_letters/w''"
  by (simp add: char_dir_def SPECIAL_CHAR_MAP_def lower_def lower_char_def
      path_join_def engine_a)

lemma dir_E_acute: "char_dir sample_engine (CHR 0xC9) = ''my_letters/'' @ [CHR 0xE9]"
  by code_simp

lemma image_name_w: "is_image_name ''w1.jpg''"
  by code_simp

lemma choice_w: "random_choice sample_world [''w1.jpg''] = (''w1.jpg'', sample_world)"
  by (simp add: random_choice_def sample_world_def)

lemma char_item_w:
  "\<exists>g. char_item sample_cv sample_engine CHR ''w'' sample_world
          = Inr ((Some g, 322), sample_world)"
proof -
  obtain g where
    g: "process_letter_contour sample_cv sample_engine sample_world
          ''my_letters/w/w1.jpg'' ''w'' = Inr (Some g)" and w: "ncols g = 320"
    using sample_w_glyph by blast
  have "dirs sample_world ''my_letters/w'' = Some [''w1.jpg'']"
    by (simp add: sample_world_def)
  moreover have "path_join ''my_letters/w'' ''w1.jpg'' = ''my_letters/w/w1.jpg''"
    by (simp add: path_join_def)
  ultimately show ?thesis
    using g by (simp add: char_item_def dir_w image_name_w choice_w w engine_a)
qed

lemma split_two_lines:
  "split_on (CHR 0x0A) two_lines = [''wwww www'', ''w'']"
  "split_on CHR '' '' ''wwww www'' = [''wwww'', ''www'']"
  "split_on CHR '' '' ''w'' = [''w'']"
  by (simp_all add: two_lines_def)

lemma area_small: "polygon_area [(0, 0), (0, 8), (10, 8), (10, 0)] = 80"
  by (simp add: polygon_area_def)

lemma box_small: "bounding_box [(0, 0), (0, 8), (10, 8), (10, 0)] = (0, 0, 11, 9)"
  by (simp add: bounding_box_def)

lemma width_t: "py_int (int_times_float 29 (true_div 31 29)) = 30"
  by code_simp

lemma exact_width_t: "\<lfloor>rat_of_int 29 * (rat_of_nat 31 / rat_of_nat 29)\<rfloor> = 31"
  by simp

lemma contours_t:
  "findContours sample_cv (threshold_otsu_inv sample_cv (cvtColor_gray sample_cv sample_small))
   = [[(0, 0), (0, 8), (10, 8), (10, 0)]]"
  by (simp add: sample_cv_def sample_small_def)

lemma roi_t:
  "letter_roi sample_cv (threshold_otsu_inv sample_cv (cvtColor_gray sample_cv sample_small))
     [[(0, 0), (0, 8), (10, 8), (10, 0)]]
   = copyMakeBorder \<lparr>nrows = 9, ncols = 11, px = (\<lambda>i j. 255)\<rparr> 10"
  by (simp add: letter_roi_def valid_contours_def sample_cv_def sample_small_def area_small
      box_small slice2_def)

lemma target_t: "target_height sample_engine ''t'' = 29"
  by (simp add: sample_engine_def target_height_init classify_t)

lemma start_y_t: "start_y sample_engine ''t'' = 6"
  by (simp add: start_y_def sample_engine_def target_height_init classify_t baseline_init
        std_size_init descenders_def lower_def lower_char_def)

lemma sample_t_size:
  "returned_size (process_letter_contour sample_cv sample_engine sample_world
      ''my_letters/t/t1.png'' ''t'') = Some (30, 50)"
  by (simp add: returned_size_def process_letter_contour_def sample_world_def contours_t
      roi_t target_t resized_width_def copyMakeBorder_def width_t start_y_t assign_rows_def
      py_slice_bound_def zeros_def engine_a Let_def)

section \<open>Claims about the glyph normalizer\<close>

text \<open>
  \<^bold>\<open>C1\<close> (as amended). For every input character, the height the glyph is resized to
  (\<open>new_h\<close> of line 76) is the product of the class ratio and \<open>std_size - 4\<close> truncated
  to an integer, not rounded: with the constructor's \<open>std_size = 50\<close> it is 9 for small
  punctuation, 29 for tall ascenders and for descenders, 16 for short letters and 27 for
  any other character.
\<close>

theorem target_height_truncates:
  "target_height (init_engine p ink) c =
     \<lfloor>spec_ratio (spec_classify c) * of_int (std_size (init_engine p ink) - 4)\<rfloor>"
  by (cases "spec_classify c") (simp_all only: target_height_init safe_zone_init floor_ratio char_class.case)

text \<open>
  The claim as written asks for the rounded product. For \<^verbatim>\<open>t\<close> the product is
  0.65 * 46 = 29.9: \<^verbatim>\<open>int\<close> gives 29, rounding gives 30.
\<close>

theorem target_height_round_counterexample:
  "target_height (init_engine ''my_letters'' (20, 24, 82)) ''t''
     \<noteq> round (spec_ratio (spec_classify ''t'')
               * of_int (std_size (init_engine ''my_letters'' (20, 24, 82)) - 4))"
  by (simp only: target_height_init classify_t safe_zone_init round_ratio_tall char_class.case)

text \<open>
  \<^bold>\<open>C2\<close>. A descender and a short letter, normalized independently, are composited at
  the same row of the canvas: the baseline minus the target height of the short class.
  The row depends on the character and on \<open>std_size\<close> only, so the samples play no part.
\<close>

theorem descender_top_is_short_top:
  assumes "lower d \<in> set descenders" and "lower s \<in> set short_letters"
  shows "start_y (init_engine p ink) d = start_y (init_engine p ink) s
       \<and> start_y (init_engine p ink) s
           = baseline_y (init_engine p ink) - target_height (init_engine p ink) s"
proof -
  have d: "spec_classify d = Descender" and s: "spec_classify s = Short"
    using assms by (auto simp: spec_classify_def descenders_def short_letters_def)
  have "start_y (init_engine p ink) d = 19"
    using assms(1)
    by (auto simp: start_y_def target_height_init d baseline_init safe_zone_init trunc_46_by_035
        std_size_init descenders_def)
  moreover have "start_y (init_engine p ink) s = 19"
    using assms(2)
    by (auto simp: start_y_def target_height_init s baseline_init safe_zone_init
        std_size_init short_letters_def descenders_def)
  moreover have "target_height (init_engine p ink) s = 16"
    by (simp add: target_height_init s)
  ultimately show ?thesis
    by (simp add: baseline_init)
qed

theorem descender_top_is_short_top_witness:
  "lower ''y'' \<in> set descenders \<and> lower ''a'' \<in> set short_letters
   \<and> start_y sample_engine ''y'' = start_y sample_engine ''a''
   \<and> start_y sample_engine ''a''
       = baseline_y sample_engine - target_height sample_engine ''a''"
proof -
  have y: "lower ''y'' \<in> set descenders"
    by (simp add: lower_def lower_char_def descenders_def)
  have a: "lower ''a'' \<in> set short_letters"
    by (simp add: lower_def lower_char_def short_letters_def)
  from descender_top_is_short_top [OF y a, of "''my_letters''" "(20, 24, 82)"] y a
  show ?thesis
    by (simp add: sample_engine_def)
qed

text \<open>
  \<^bold>\<open>C5\<close> (as amended). A glyph returned by \<open>process_letter_contour\<close> is \<open>std_size\<close> rows
  high, and its width is \<^verbatim>\<open>int(new_h * (w / h))\<close> as Python's floats compute it, for the
  width \<open>w\<close> and height \<open>h\<close> of the padded crop: the quotient is rounded to a double, the
  product is rounded again, and the result is truncated.
\<close>

theorem glyph_shape:
  assumes "process_letter_contour lib eng world path c = Inr (Some g)"
    and "files world path = Some img"
    and "roi = letter_roi lib (threshold_otsu_inv lib (cvtColor_gray lib img))
                 (findContours lib (threshold_otsu_inv lib (cvtColor_gray lib img)))"
  shows "int (nrows g) = std_size eng
       \<and> int (ncols g) = py_int (int_times_float (target_height eng c)
                                   (true_div (int (ncols roi)) (int (nrows roi))))"
  using assms by (elim process_SomeE) (simp add: resized_width_def Let_def)

theorem glyph_shape_witness:
  "\<exists>g. process_letter_contour sample_cv sample_engine sample_world
          ''my_letters/a/a1.png'' ''a'' = Inr (Some g)
      \<and> int (nrows g) = 50 \<and> int (ncols g) = 12"
proof -
  from sample_a_success obtain g where
    g: "process_letter_contour sample_cv sample_engine sample_world
          ''my_letters/a/a1.png'' ''a'' = Inr (Some g)" ..
  from glyph_shape [OF g files_a refl]
  have "int (nrows g) = 50 \<and> int (ncols g) = 12"
    by (simp add: contours_a roi_a copyMakeBorder_def target_a width_a engine_a)
  with g show ?thesis by blast
qed

text \<open>
  The claim as written takes the exact product. For \<^verbatim>\<open>t\<close> on a mark of 11x9 pixels the
  padded crop is 31 wide and 29 high and \<open>new_h\<close> is 29: \<^verbatim>\<open>31 / 29\<close> rounds to a double
  just below the quotient, \<^verbatim>\<open>29 * (31 / 29)\<close> is \<^verbatim>\<open>30.999999999999996\<close>, and the glyph
  is 30 wide where 29 x 31/29 truncated is 31.
\<close>

theorem glyph_width_exact_counterexample:
  "returned_size (process_letter_contour sample_cv sample_engine sample_world
      ''my_letters/t/t1.png'' ''t'') = Some (30, 50)
   \<and> nrows (letter_roi sample_cv
         (threshold_otsu_inv sample_cv (cvtColor_gray sample_cv sample_small))
         (findContours sample_cv
            (threshold_otsu_inv sample_cv (cvtColor_gray sample_cv sample_small)))) = 29
   \<and> ncols (letter_roi sample_cv
         (threshold_otsu_inv sample_cv (cvtColor_gray sample_cv sample_small))
         (findContours sample_cv
            (threshold_otsu_inv sample_cv (cvtColor_gray sample_cv sample_small)))) = 31
   \<and> \<lfloor>rat_of_int (target_height sample_engine ''t'') * (rat_of_nat 31 / rat_of_nat 29)\<rfloor> = 31"
  by (simp add: sample_t_size contours_t roi_t copyMakeBorder_def target_t)

text \<open>
  \<^bold>\<open>C6\<close>. In every run of \<open>process_letter_contour\<close> that returns a glyph, whatever the
  engine's \<open>std_size\<close>, the row \<open>start_y\<close> at which the resized glyph is composited
  satisfies \<open>0 \<le> start_y\<close> and \<open>start_y + new_h \<le> std_size\<close>.
\<close>

theorem composite_inside_canvas:
  assumes "process_letter_contour lib eng world path c = Inr (Some g)"
  shows "0 \<le> start_y eng c \<and> start_y eng c + target_height eng c \<le> std_size eng"
proof -
  from assms obtain placed where
    pos: "0 < target_height eng c" and size: "0 \<le> std_size eng" and
    asg: "\<exists>w f. assign_rows (zeros (nat (std_size eng)) w) (start_y eng c)
            (start_y eng c + target_height eng c)
            \<lparr>nrows = nat (target_height eng c), ncols = w, px = f\<rparr> = Inr placed"
    by (elim process_SomeE) blast
  have "0 \<le> start_y eng c"
  proof (rule ccontr)
    assume "\<not> 0 \<le> start_y eng c"
    then have neg: "start_y eng c < 0" by simp
    then have eq: "start_y eng c = std_size eng - target_height eng c"
      by (rule start_y_negative)
    with neg have less: "std_size eng < target_height eng c" by simp
    from asg eq neg size less have "nat (target_height eng c) = 1"
      by (auto simp: assign_rows_def zeros_def py_slice_bound_def Let_def split: if_splits)
    with less size have "std_size eng = 0" and "target_height eng c = 1" by auto
    with target_height_zero_size [of eng c] show False by simp
  qed
  with start_y_upper show ?thesis by simp
qed

theorem composite_inside_canvas_witness:
  "\<exists>g. process_letter_contour sample_cv sample_engine sample_world
          ''my_letters/a/a1.png'' ''a'' = Inr (Some g)
      \<and> 0 \<le> start_y sample_engine ''a''
      \<and> start_y sample_engine ''a'' + target_height sample_engine ''a''
          \<le> std_size sample_engine"
proof -
  from sample_a_success obtain g where
    g: "process_letter_contour sample_cv sample_engine sample_world
          ''my_letters/a/a1.png'' ''a'' = Inr (Some g)" ..
  from composite_inside_canvas [OF g] g show ?thesis by blast
qed

text \<open>
  \<^bold>\<open>C7\<close> (as amended). The contours kept are exactly those whose area is greater than
  10, a contour of area exactly 10 being discarded with the smaller ones; when no
  contour is greater than 10 all of them are kept; the crop is the bounding rectangle
  of the kept contours, padded.
\<close>

theorem contours_kept:
  "valid_contours lib contours =
     (if \<forall>cnt \<in> set contours. contourArea lib cnt \<le> 10 then contours
      else filter (\<lambda>cnt. \<not> contourArea lib cnt \<le> 10) contours)
   \<and> letter_roi lib thresh contours =
     (case boundingRect lib (concat (valid_contours lib contours)) of
        (x, y, w, h) \<Rightarrow> copyMakeBorder (slice2 thresh y (y + h) x (x + w)) 10)"
  by (auto simp: valid_contours_def letter_roi_def Let_def filter_empty_conv not_le
      intro: filter_cong)

theorem contours_kept_witness:
  "valid_contours sample_cv [blob, stroke] = [stroke]
   \<and> valid_contours sample_cv [blob] = [blob]"
  using contours_kept [of sample_cv "[blob, stroke]"] contours_kept [of sample_cv "[blob]"]
  by (simp add: area_sample area_blob area_stroke)

text \<open>
  The claim as written discards the contours below 10 only. A blob of 6x3 pixels has a
  contour of area exactly 10, which is not below 10, and it is discarded although a
  larger contour remains.
\<close>

theorem area_ten_discarded_counterexample:
  "contourArea sample_cv blob = 10
   \<and> \<not> contourArea sample_cv blob < 10
   \<and> blob \<notin> set (valid_contours sample_cv [blob, stroke])"
  by (simp add: valid_contours_def area_sample area_blob area_stroke blob_not_stroke)

text \<open>
  \<^bold>\<open>C8\<close>. When the sample cannot be read, and when thresholding yields no contours,
  \<open>process_letter_contour\<close> returns \<^verbatim>\<open>None\<close>; it does not raise.
\<close>

theorem no_glyph_signal:
  assumes "files world path = None
         \<or> (\<exists>img. files world path = Some img
               \<and> findContours lib (threshold_otsu_inv lib (cvtColor_gray lib img)) = [])"
  shows "process_letter_contour lib eng world path c = Inr None"
  using assms by (auto simp: process_letter_contour_def)

theorem no_glyph_signal_witness:
  "process_letter_contour sample_cv sample_engine sample_world
     ''my_letters/a/missing.png'' ''a'' = Inr None
   \<and> process_letter_contour sample_cv sample_engine sample_world
     ''my_letters/c/c1.PNG'' ''c'' = Inr None"
proof -
  have unreadable: "files sample_world ''my_letters/a/missing.png'' = None"
    by (simp add: sample_world_def)
  have blank: "files sample_world ''my_letters/c/c1.PNG'' = Some sample_blank"
    by (simp add: sample_world_def)
  show ?thesis
    using no_glyph_signal [of sample_world "''my_letters/a/missing.png''" sample_cv
            sample_engine "''a''"]
          no_glyph_signal [of sample_world "''my_letters/c/c1.PNG''" sample_cv
            sample_engine "''c''"]
    by (simp add: unreadable blank contours_blank)
qed

text \<open>
  \<^bold>\<open>C10\<close>. In a glyph returned by \<open>process_letter_contour\<close> every alpha value is 0 or
  255 and the three colour channels of every pixel are the configured ink colour.
\<close>

theorem glyph_alpha_binary:
  assumes "process_letter_contour lib eng world path c = Inr (Some g)"
  shows "(case px g i j of (r, gr, b, a) \<Rightarrow> (a = 0 \<or> a = 255) \<and> (r, gr, b) = ink_color eng)"
  using assms by (elim process_SomeE) (simp add: threshold_binary_def)

theorem glyph_alpha_binary_witness:
  "\<exists>g. process_letter_contour sample_cv sample_engine sample_world
          ''my_letters/a/a1.png'' ''a'' = Inr (Some g)
      \<and> (case px g 20 5 of
           (r, gr, b, a) \<Rightarrow> (a = 0 \<or> a = 255) \<and> (r, gr, b) = (20, 24, 82))"
proof -
  from sample_a_success obtain g where
    g: "process_letter_contour sample_cv sample_engine sample_world
          ''my_letters/a/a1.png'' ''a'' = Inr (Some g)" ..
  from glyph_alpha_binary [OF g, of 20 5] g show ?thesis
    by (auto simp: engine_a)
qed

section \<open>Claims about the page composer\<close>

text \<open>
  \<^bold>\<open>C3\<close>. For every word of the composed text the wrap decision is taken once, on the
  word's total width. A run of \<open>generate\<close> that ends builds one list of items per word,
  one item per character, and its canvas is the specification's layout of those items:
  word after word, line after line, a word whose total width would pass \<open>max_x\<close> starts
  at the left margin one line lower before any of its glyphs is pasted, and all the
  pastes of a word lie on one row.
\<close>

theorem generate_places_whole_words:
  assumes "generate lib eng text world = Inr (pg, world')"
  shows "\<exists>itemss.
           lines_items lib eng (split_on (CHR 0x0A) text) world = Inr (itemss, world')
         \<and> map (map length) itemss
             = map (map length) (map (split_on CHR '' '') (split_on (CHR 0x0A) text))
         \<and> canvas pg = concat (fst (spec_lines eng itemss (start_x, 200)))
         \<and> (curr_x pg, curr_y pg) = snd (spec_lines eng itemss (start_x, 200))
         \<and> length (fst (spec_lines eng itemss (start_x, 200))) = length (concat itemss)
         \<and> (\<forall>wp \<in> set (fst (spec_lines eng itemss (start_x, 200))).
               \<forall>p \<in> set wp. \<forall>q \<in> set wp. snd (snd p) = snd (snd q))"
proof -
  from assms have "do_lines lib eng (split_on (CHR 0x0A) text)
      (\<lparr>curr_x = start_x, curr_y = 200, canvas = []\<rparr>, world) = Inr (pg, world')"
    by (simp add: generate_def)
  from do_lines_layout [OF this] obtain itemss where
    "lines_items lib eng (split_on (CHR 0x0A) text) world = Inr (itemss, world')"
    "map (map length) itemss
       = map (map length) (map (split_on CHR '' '') (split_on (CHR 0x0A) text))"
    "canvas pg = concat (fst (spec_lines eng itemss (start_x, 200)))"
    "(curr_x pg, curr_y pg) = snd (spec_lines eng itemss (start_x, 200))"
    by auto
  then show ?thesis
    using spec_lines_length [of eng itemss "(start_x, 200)"]
      spec_lines_rows [of _ eng itemss "(start_x, 200)"]
    by (intro exI [of _ itemss]) blast
qed

text \<open>
  In the example the second word is three glyphs of 322 pixels with the pen at 1508:
  two of them would fit before \<open>max_x\<close>, and the whole word goes to the next line.
\<close>

theorem generate_places_whole_words_witness:
  "\<exists>pg world' g.
     generate sample_cv sample_engine two_lines sample_world = Inr (pg, world')
     \<and> canvas pg = [(g, 200, 200), (g, 522, 200), (g, 844, 200), (g, 1166, 200),
                    (g, 200, 265), (g, 522, 265), (g, 844, 265),
                    (g, 200, 330)]
     \<and> (curr_x pg, curr_y pg) = (200, 395)"
proof -
  from char_item_w obtain g where
    ci: "char_item sample_cv sample_engine CHR ''w'' sample_world
           = Inr ((Some g, 322), sample_world)" ..
  have "\<exists>pg world'. generate sample_cv sample_engine two_lines sample_world = Inr (pg, world')"
    by (simp add: generate_def split_two_lines do_line_def do_word_def ci Let_def)
  then obtain pg world' where
    gen: "generate sample_cv sample_engine two_lines sample_world = Inr (pg, world')"
    by blast
  have li: "lines_items sample_cv sample_engine (split_on (CHR 0x0A) two_lines) sample_world
      = Inr ([[replicate 4 (Some g, 322), replicate 3 (Some g, 322)], [[(Some g, 322)]]],
             sample_world)"
    by (simp add: split_two_lines ci numeral_eq_Suc)
  from generate_places_whole_words [OF gen] li
  have "canvas pg = concat (fst (spec_lines sample_engine
            [[replicate 4 (Some g, 322), replicate 3 (Some g, 322)], [[(Some g, 322)]]]
            (start_x, 200)))"
    and "(curr_x pg, curr_y pg) = snd (spec_lines sample_engine
            [[replicate 4 (Some g, 322), replicate 3 (Some g, 322)], [[(Some g, 322)]]]
            (start_x, 200))"
    by auto
  then have "canvas pg = [(g, 200, 200), (g, 522, 200), (g, 844, 200), (g, 1166, 200),
                    (g, 200, 265), (g, 522, 265), (g, 844, 265), (g, 200, 330)]
     \<and> (curr_x pg, curr_y pg) = (200, 395)"
    by (simp add: numeral_eq_Suc start_x_def max_x_def engine_a space_sample)
  with gen show ?thesis by blast
qed

text \<open>
  \<^bold>\<open>C4\<close>. A character whose directory is missing, holds no image file, or whose chosen
  sample normalizes to \<^verbatim>\<open>None\<close>, becomes the item \<open>(None, fallback_width)\<close>; the loop
  over the word goes on without an exception, and drawing the item pastes nothing and
  moves \<open>curr_x\<close> by \<open>fallback_width\<close>.
\<close>

theorem missing_glyph_leaves_gap:
  assumes "dirs world (char_dir eng ch) = None
         \<or> (\<exists>listing. dirs world (char_dir eng ch) = Some listing
               \<and> filter is_image_name listing = [])
         \<or> (\<exists>listing. dirs world (char_dir eng ch) = Some listing
               \<and> filter is_image_name listing \<noteq> []
               \<and> process_letter_contour lib eng
                    (snd (random_choice world (filter is_image_name listing)))
                    (path_join (char_dir eng ch)
                       (fst (random_choice world (filter is_image_name listing))))
                    [ch] = Inr None)"
  shows "\<exists>world'.
           char_item lib eng ch world = Inr ((None, fallback_width eng), world')
         \<and> word_items lib eng (ch # chs) (items, width_so_far) world
             = word_items lib eng chs
                 (items @ [(None, fallback_width eng)], width_so_far + fallback_width eng) world'
         \<and> draw_item (None, fallback_width eng) pg
             = pg\<lparr>curr_x := curr_x pg + fallback_width eng\<rparr>"
  using assms
  by (auto simp: char_item_def draw_item_def Let_def split: prod.splits)

theorem missing_glyph_leaves_gap_witness:
  "(\<exists>world'. char_item sample_cv sample_engine CHR ''d'' sample_world
                = Inr ((None, 25), world'))
   \<and> (\<exists>world'. char_item sample_cv sample_engine CHR ''b'' sample_world
                = Inr ((None, 25), world'))
   \<and> (\<exists>world'. char_item sample_cv sample_engine CHR ''c'' sample_world
                = Inr ((None, 25), world'))
   \<and> (\<exists>world'. char_item sample_cv sample_engine (CHR 0xC9) sample_world
                = Inr ((None, 25), world'))
   \<and> draw_item (None, 25) page_near_margin = page_near_margin\<lparr>curr_x := 2220\<rparr>"
proof -
  have d: "dirs sample_world (char_dir sample_engine CHR ''d'') = None"
    by (simp add: dir_d sample_world_def)
  have e: "dirs sample_world (char_dir sample_engine (CHR 0xC9)) = None"
    by (simp add: dir_E_acute sample_world_def)
  have b: "dirs sample_world (char_dir sample_engine CHR ''b'') = Some [''readme.txt'']"
    "filter is_image_name [''readme.txt''] = []"
    by (simp_all add: dir_b sample_world_def image_names)
  have c: "dirs sample_world (char_dir sample_engine CHR ''c'') = Some [''c1.PNG'']"
    "filter is_image_name [''c1.PNG''] \<noteq> []"
    by (simp_all add: dir_c sample_world_def image_names)
  have blank: "process_letter_contour sample_cv sample_engine sample_world
       ''my_letters/c/c1.PNG'' [CHR ''c''] = Inr None"
    by (simp add: process_letter_contour_def sample_world_def contours_blank)
  have c': "process_letter_contour sample_cv sample_engine
       (snd (random_choice sample_world (filter is_image_name [''c1.PNG''])))
       (path_join (char_dir sample_engine CHR ''c'')
          (fst (random_choice sample_world (filter is_image_name [''c1.PNG'']))))
       [CHR ''c''] = Inr None"
    using blank by (simp add: image_names choice_c dir_c path_join_def)
  from missing_glyph_leaves_gap [of sample_world sample_engine "CHR ''d''" sample_cv "[]" "[]" 0
        page_near_margin]
       missing_glyph_leaves_gap [of sample_world sample_engine "CHR ''b''" sample_cv "[]" "[]" 0
        page_near_margin]
       missing_glyph_leaves_gap [of sample_world sample_engine "CHR ''c''" sample_cv "[]" "[]" 0
        page_near_margin]
       missing_glyph_leaves_gap [of sample_world sample_engine "CHR 0xC9" sample_cv "[]" "[]" 0
        page_near_margin]
       d b c c' e
  show ?thesis
    by (auto simp: fallback_sample page_near_margin_def)
qed

end
